theory Spec2Isabelle
  imports Main "HOL-Library.Word" "HOL-Library.Char_ord" "HOL-Library.List_Lexorder"
    "HOL-Library.AList"
begin

unbundle bit_operations_syntax

section \<open>Go values and the JSON encoder\<close>

text \<open>
  A Go \<open>string\<close> is a sequence of bytes; it is modelled as \<open>string\<close>, whose characters
  are 8-bit.  The order on strings is the byte-wise lexicographic order that Go's \<open><\<close> on
  strings and \<open>sort.Strings\<close> use (on valid UTF-8 it coincides with code-point order).

  The dynamic values a \<open>map[string]interface{}\<close> holds are the values the JSON decoder
  produces (nil, booleans, strings, slices, string-keyed maps) together with Go integers,
  which the tests pass directly.  Floating-point numbers are not modelled.  A Go map is an
  association list with pairwise distinct keys; the order of the list stands for the
  order in which the entries were inserted and in which \<open>range\<close> happens to visit them.
  A map variable may also be nil, which is \<open>None\<close>.
\<close>

datatype go_value =
    VNil
  | VBool bool
  | VInt int
  | VString string
  | VSlice "go_value list"
  | VMap "(string \<times> go_value) list"

type_synonym gomap = "(string \<times> go_value) list"

text \<open>\<open>len(m)\<close>, \<open>for k := range m\<close>, \<open>m[k]\<close> and \<open>m[k] = v\<close>.\<close>

definition map_len :: "gomap option \<Rightarrow> nat" where
  "map_len m = (case m of None \<Rightarrow> 0 | Some al \<Rightarrow> length al)"

definition map_range_keys :: "gomap option \<Rightarrow> string list" where
  "map_range_keys m = (case m of None \<Rightarrow> [] | Some al \<Rightarrow> map fst al)"

definition map_index :: "gomap option \<Rightarrow> string \<Rightarrow> go_value" where
  "map_index m k =
     (case m of
        None \<Rightarrow> VNil
      | Some al \<Rightarrow> (case map_of al k of None \<Rightarrow> VNil | Some v \<Rightarrow> v))"

definition map_assign :: "gomap \<Rightarrow> string \<Rightarrow> go_value \<Rightarrow> gomap" where
  "map_assign al k v = AList.update k v al"

text \<open>
  \<open>strconv.FormatInt(i, 10)\<close>: the decimal digits, most significant first, with a
  leading minus sign for a negative number.
\<close>

definition hex :: string where
  "hex = ''0123456789abcdef''"

function formatBits :: "nat \<Rightarrow> string" where
  "formatBits u =
     (if u < 10 then [hex ! u] else formatBits (u div 10) @ [hex ! (u mod 10)])"
  by pat_completeness auto
termination
  by (relation "measure id") auto

declare formatBits.simps [simp del]

definition FormatInt :: "int \<Rightarrow> string" where
  "FormatInt i =
     (if i < 0 then CHR ''-'' # formatBits (nat (- i)) else formatBits (nat i))"

text \<open>
  The string encoder of \<open>encoding/json\<close> as \<open>json.Marshal\<close> runs it (with escaping of
  \<open><\<close>, \<open>>\<close> and \<open>&\<close> switched on).  Bytes below \<open>0x80\<close> are copied when they are in
  the safe set and escaped otherwise; a well-formed UTF-8 sequence is copied unchanged,
  except U+2028 and U+2029; a byte that starts no well-formed sequence becomes
  the six characters of the escape for U+FFFD.
\<close>

definition htmlSafe :: "nat \<Rightarrow> bool" where
  "htmlSafe b \<longleftrightarrow>
     0x20 \<le> b \<and> b < 0x80 \<and> b \<noteq> 0x22 \<and> b \<noteq> 0x26 \<and> b \<noteq> 0x3C \<and> b \<noteq> 0x3E \<and> b \<noteq> 0x5C"

definition escapeByte :: "char \<Rightarrow> string" where
  "escapeByte c =
     (let b = (of_char c :: nat) in
      if b = 0x5C \<or> b = 0x22 then [CHR 0x5C, c]
      else if b = 0x08 then [CHR 0x5C, CHR ''b'']
      else if b = 0x0C then [CHR 0x5C, CHR ''f'']
      else if b = 0x0A then [CHR 0x5C, CHR ''n'']
      else if b = 0x0D then [CHR 0x5C, CHR ''r'']
      else if b = 0x09 then [CHR 0x5C, CHR ''t'']
      else [CHR 0x5C, CHR ''u'', CHR ''0'', CHR ''0'', hex ! (b div 16), hex ! (b mod 16)])"

definition cont :: "nat \<Rightarrow> bool" where
  "cont b \<longleftrightarrow> 0x80 \<le> b \<and> b \<le> 0xBF"

text \<open>
  \<open>utf8.DecodeRuneInString\<close>, reduced to what the encoder reads from it: the width of
  the well-formed sequence at the head of the bytes, or \<open>None\<close> where Go returns
  \<open>(RuneError, 1)\<close>.  Only called on a head byte of at least \<open>0x80\<close>.
\<close>

fun rune_size :: "nat list \<Rightarrow> nat option" where
  "rune_size [] = None"
| "rune_size (b0 # bs) =
    (if 0xC2 \<le> b0 \<and> b0 \<le> 0xDF then
       (case bs of
          b1 # _ \<Rightarrow> if cont b1 then Some 2 else None
        | _ \<Rightarrow> None)
     else if 0xE0 \<le> b0 \<and> b0 \<le> 0xEF then
       (case bs of
          b1 # b2 # _ \<Rightarrow>
            if (if b0 = 0xE0 then 0xA0 else 0x80) \<le> b1
               \<and> b1 \<le> (if b0 = 0xED then 0x9F else 0xBF) \<and> cont b2
            then Some 3 else None
        | _ \<Rightarrow> None)
     else if 0xF0 \<le> b0 \<and> b0 \<le> 0xF4 then
       (case bs of
          b1 # b2 # b3 # _ \<Rightarrow>
            if (if b0 = 0xF0 then 0x90 else 0x80) \<le> b1
               \<and> b1 \<le> (if b0 = 0xF4 then 0x8F else 0xBF) \<and> cont b2 \<and> cont b3
            then Some 4 else None
        | _ \<Rightarrow> None)
     else None)"

function appendString_loop :: "string \<Rightarrow> string" where
  "appendString_loop [] = []"
| "appendString_loop (c # cs) =
    (let b = (of_char c :: nat) in
     if b < 0x80 then
       (if htmlSafe b then [c] else escapeByte c) @ appendString_loop cs
     else
       (case rune_size (map of_char (take 4 (c # cs))) of
          None \<Rightarrow>
            [CHR 0x5C, CHR ''u'', CHR ''f'', CHR ''f'', CHR ''f'', CHR ''d'']
            @ appendString_loop cs
        | Some sz \<Rightarrow>
            (if take 3 (c # cs) = [CHR 0xE2, CHR 0x80, CHR 0xA8]
             then [CHR 0x5C, CHR ''u'', CHR ''2'', CHR ''0'', CHR ''2'', CHR ''8'']
             else if take 3 (c # cs) = [CHR 0xE2, CHR 0x80, CHR 0xA9]
             then [CHR 0x5C, CHR ''u'', CHR ''2'', CHR ''0'', CHR ''2'', CHR ''9'']
             else take sz (c # cs))
            @ appendString_loop (drop (sz - 1) cs)))"
  by pat_completeness auto
termination
  by (relation "measure length") auto

definition appendString :: "string \<Rightarrow> string" where
  "appendString s = [CHR 0x22] @ appendString_loop s @ [CHR 0x22]"

text \<open>
  The encoder proper.  A map is written with its entries sorted by key (the encoder
  collects the keys and sorts them before it writes); a slice in its own order.
\<close>

fun join :: "string list \<Rightarrow> string" where
  "join [] = []"
| "join [x] = x"
| "join (x # y # ys) = x @ CHR '','' # join (y # ys)"

function json_Marshal :: "go_value \<Rightarrow> string" where
  "json_Marshal VNil = ''null''"
| "json_Marshal (VBool b) = (if b then ''true'' else ''false'')"
| "json_Marshal (VInt i) = FormatInt i"
| "json_Marshal (VString s) = appendString s"
| "json_Marshal (VSlice vs) = ''['' @ join (map json_Marshal vs) @ '']''"
| "json_Marshal (VMap m) =
     ''{'' @ join (map (\<lambda>(k, v). appendString k @ '':'' @ json_Marshal v) (sort_key fst m))
     @ ''}''"
  by pat_completeness auto
termination
proof (relation "measure size")
  fix m :: gomap and x :: "string \<times> go_value" and k v
  assume "x \<in> set (sort_key fst m)" and "(k, v) = x"
  then have "(k, v) \<in> set m" by simp
  then have "size v < Suc (size_list (size_prod (\<lambda>_. 0) size) m)"
    by (induction m) auto
  then show "(v, VMap m) \<in> measure size" by simp
next
  fix vs :: "go_value list" and x
  assume "x \<in> set vs"
  then have "size x < Suc (size_list size vs)"
    by (induction vs) auto
  then show "(x, VSlice vs) \<in> measure size" by simp
qed simp

section \<open>The signer\<close>

text \<open>
  \<open>sortParams\<close>: the empty string for a map of length 0; otherwise the keys are
  collected, sorted, a second map is filled key by key in that order and handed to the
  encoder.  The encoder's error result is discarded by the source; on the values
  modelled here it never fails.
\<close>

definition sortParams :: "gomap option \<Rightarrow> string" where
  "sortParams params =
     (if map_len params = 0 then []
      else
        let keys = sort (map_range_keys params);
            sortedMap = foldl (\<lambda>sm k. map_assign sm k (map_index params k)) [] keys
        in json_Marshal (VMap sortedMap))"

text \<open>
  The text of a JSON object whose members are written in exactly the listed order.
  \<open>json_Marshal (VMap m)\<close> is \<open>write_object\<close> of the entries of \<open>m\<close> sorted by key.
\<close>

definition write_object :: "gomap \<Rightarrow> string" where
  "write_object es =
     ''{'' @ join (map (\<lambda>(k, v). appendString k @ '':'' @ json_Marshal v) es) @ ''}''"

subsection \<open>SHA-256 (\<open>crypto/sha256\<close>)\<close>

type_synonym byte = "8 word"
type_synonym uint32 = "32 word"

text \<open>\<open>[]byte(s)\<close> for a string \<open>s\<close>.\<close>

definition bytes_of :: "string \<Rightarrow> byte list" where
  "bytes_of s = map of_char s"

definition K256 :: "uint32 list" where
  "K256 = [
    0x428A2F98, 0x71374491, 0xB5C0FBCF, 0xE9B5DBA5, 0x3956C25B, 0x59F111F1, 0x923F82A4, 0xAB1C5ED5,
    0xD807AA98, 0x12835B01, 0x243185BE, 0x550C7DC3, 0x72BE5D74, 0x80DEB1FE, 0x9BDC06A7, 0xC19BF174,
    0xE49B69C1, 0xEFBE4786, 0x0FC19DC6, 0x240CA1CC, 0x2DE92C6F, 0x4A7484AA, 0x5CB0A9DC, 0x76F988DA,
    0x983E5152, 0xA831C66D, 0xB00327C8, 0xBF597FC7, 0xC6E00BF3, 0xD5A79147, 0x06CA6351, 0x14292967,
    0x27B70A85, 0x2E1B2138, 0x4D2C6DFC, 0x53380D13, 0x650A7354, 0x766A0ABB, 0x81C2C92E, 0x92722C85,
    0xA2BFE8A1, 0xA81A664B, 0xC24B8B70, 0xC76C51A3, 0xD192E819, 0xD6990624, 0xF40E3585, 0x106AA070,
    0x19A4C116, 0x1E376C08, 0x2748774C, 0x34B0BCB5, 0x391C0CB3, 0x4ED8AA4A, 0x5B9CCA4F, 0x682E6FF3,
    0x748F82EE, 0x78A5636F, 0x84C87814, 0x8CC70208, 0x90BEFFFA, 0xA4506CEB, 0xBEF9A3F7, 0xC67178F2]"

type_synonym hstate =
  "uint32 \<times> uint32 \<times> uint32 \<times> uint32 \<times> uint32 \<times> uint32 \<times> uint32 \<times> uint32"

definition init_state :: hstate where
  "init_state =
     (0x6A09E667, 0xBB67AE85, 0x3C6EF372, 0xA54FF53A,
      0x510E527F, 0x9B05688C, 0x1F83D9AB, 0x5BE0CD19)"

definition be32 :: "byte list \<Rightarrow> uint32" where
  "be32 p =
     push_bit 24 (ucast (p ! 0)) OR push_bit 16 (ucast (p ! 1))
     OR push_bit 8 (ucast (p ! 2)) OR ucast (p ! 3)"

fun load_words :: "nat \<Rightarrow> byte list \<Rightarrow> uint32 list" where
  "load_words 0 p = []"
| "load_words (Suc n) p = be32 (take 4 p) # load_words n (drop 4 p)"

text \<open>The message schedule: \<open>expand n w\<close> appends the next \<open>n\<close> words to \<open>w\<close>.\<close>

fun expand :: "nat \<Rightarrow> uint32 list \<Rightarrow> uint32 list" where
  "expand 0 w = w"
| "expand (Suc n) w =
    (let i = length w;
         v1 = w ! (i - 2);
         t1 = word_rotr 17 v1 XOR word_rotr 19 v1 XOR drop_bit 10 v1;
         v2 = w ! (i - 15);
         t2 = word_rotr 7 v2 XOR word_rotr 18 v2 XOR drop_bit 3 v2
     in expand n (w @ [t1 + w ! (i - 7) + t2 + w ! (i - 16)]))"

definition sha_round :: "hstate \<Rightarrow> uint32 \<times> uint32 \<Rightarrow> hstate" where
  "sha_round s kw =
    (case s of (a, b, c, d, e, f, g, h) \<Rightarrow>
     let t1 = h + (word_rotr 6 e XOR word_rotr 11 e XOR word_rotr 25 e)
                + ((e AND f) XOR (NOT e AND g)) + fst kw + snd kw;
         t2 = (word_rotr 2 a XOR word_rotr 13 a XOR word_rotr 22 a)
                + ((a AND b) XOR (a AND c) XOR (b AND c))
     in (t1 + t2, a, b, c, d + t1, e, f, g))"

definition block :: "hstate \<Rightarrow> byte list \<Rightarrow> hstate" where
  "block s p =
    (let w = expand 48 (load_words 16 p) in
     case (s, foldl sha_round s (zip K256 w)) of
       ((h0, h1, h2, h3, h4, h5, h6, h7), (a, b, c, d, e, f, g, h)) \<Rightarrow>
         (h0 + a, h1 + b, h2 + c, h3 + d, h4 + e, h5 + f, h6 + g, h7 + h))"

function blockGeneric :: "hstate \<Rightarrow> byte list \<Rightarrow> hstate" where
  "blockGeneric s p =
     (if length p \<ge> 64 then blockGeneric (block s (take 64 p)) (drop 64 p) else s)"
  by pat_completeness auto
termination
  by (relation "measure (\<lambda>(s, p). length p)") auto

declare blockGeneric.simps [simp del]

definition PutUint64 :: "64 word \<Rightarrow> byte list" where
  "PutUint64 v = map (\<lambda>i. ucast (drop_bit (56 - 8 * i) v)) [0..<8]"

definition PutUint32 :: "uint32 \<Rightarrow> byte list" where
  "PutUint32 v = [ucast (drop_bit 24 v), ucast (drop_bit 16 v), ucast (drop_bit 8 v), ucast v]"

text \<open>
  The padding \<open>checkSum\<close> writes: one byte \<open>0x80\<close>, zero bytes up to 56 modulo 64, and
  the length of the message in bits as a 64-bit big-endian number (wrapping as the
  \<open>uint64\<close> does).
\<close>

definition padding :: "nat \<Rightarrow> byte list" where
  "padding len =
    (let t = (if len mod 64 < 56 then 56 - len mod 64 else 64 + 56 - len mod 64)
     in (0x80 # replicate (t - 1) 0) @ PutUint64 (push_bit 3 (of_nat len)))"

definition Sum256 :: "byte list \<Rightarrow> byte list" where
  "Sum256 msg =
    (case blockGeneric init_state (msg @ padding (length msg)) of
       (h0, h1, h2, h3, h4, h5, h6, h7) \<Rightarrow>
         PutUint32 h0 @ PutUint32 h1 @ PutUint32 h2 @ PutUint32 h3 @
         PutUint32 h4 @ PutUint32 h5 @ PutUint32 h6 @ PutUint32 h7)"

text \<open>
  A running \<open>hash.Hash\<close> is the bytes written to it since it was created or reset;
  \<open>Sum(in)\<close> appends the digest of those bytes to \<open>in\<close>.
\<close>

type_synonym digest = "byte list"

definition sha256_New :: digest where
  "sha256_New = []"

definition digest_Write :: "digest \<Rightarrow> byte list \<Rightarrow> digest" where
  "digest_Write d p = d @ p"

definition digest_Sum :: "digest \<Rightarrow> byte list \<Rightarrow> byte list" where
  "digest_Sum d inp = inp @ Sum256 d"

definition digest_Reset :: "digest \<Rightarrow> digest" where
  "digest_Reset d = []"

definition BlockSize :: nat where
  "BlockSize = 64"

subsection \<open>HMAC (\<open>crypto/hmac\<close>) and \<open>encoding/hex\<close>\<close>

record hmac =
  opad :: "byte list"
  ipad :: "byte list"
  outer :: digest
  inner :: digest

text \<open>\<open>copy(dst, src)\<close>: the first \<open>min (len dst) (len src)\<close> bytes of \<open>dst\<close> are overwritten.\<close>

definition copy :: "byte list \<Rightarrow> byte list \<Rightarrow> byte list" where
  "copy dst src = take (length dst) src @ drop (length src) dst"

definition hmac_New :: "byte list \<Rightarrow> hmac" where
  "hmac_New key0 =
    (let outer0 = sha256_New;
         inner0 = sha256_New;
         blocksize = BlockSize;
         (outer1, key) =
           (if length key0 > blocksize
            then (let ow = digest_Write outer0 key0 in (ow, digest_Sum ow []))
            else (outer0, key0));
         ipad1 = map (\<lambda>b. b XOR 0x36) (copy (replicate blocksize 0) key);
         opad1 = map (\<lambda>b. b XOR 0x5c) (copy (replicate blocksize 0) key)
     in \<lparr> opad = opad1, ipad = ipad1, outer = outer1, inner = digest_Write inner0 ipad1 \<rparr>)"

definition hmac_Write :: "hmac \<Rightarrow> byte list \<Rightarrow> hmac" where
  "hmac_Write h p = h \<lparr> inner := digest_Write (inner h) p \<rparr>"

definition hmac_Sum :: "hmac \<Rightarrow> byte list \<Rightarrow> byte list" where
  "hmac_Sum h in0 =
    (let origLen = length in0;
         in1 = digest_Sum (inner h) in0;
         outer1 = digest_Reset (outer h);
         outer2 = digest_Write outer1 (opad h);
         outer3 = digest_Write outer2 (drop origLen in1)
     in digest_Sum outer3 (take origLen in1))"

definition hextable :: string where
  "hextable = ''0123456789abcdef''"

definition EncodeToString :: "byte list \<Rightarrow> string" where
  "EncodeToString src =
     concat (map (\<lambda>v. [hextable ! unat (drop_bit 4 v), hextable ! unat (v AND 0x0f)]) src)"

subsection \<open>\<open>generateSignature\<close>\<close>

definition generateSignature ::
  "string \<Rightarrow> string \<Rightarrow> gomap option \<Rightarrow> string \<Rightarrow> string \<Rightarrow> string \<Rightarrow> string" where
  "generateSignature method path params timestamp nonce appSecret =
    (let sortedParams = sortParams params;
         signContent = method @ path @ sortedParams @ timestamp @ nonce;
         mac = hmac_New (bytes_of appSecret);
         mac' = hmac_Write mac (bytes_of signContent)
     in EncodeToString (hmac_Sum mac' []))"

subsection \<open>What the signature is specified to be\<close>

text \<open>
  HMAC as RFC 2104 defines it for SHA-256 (block length 64): a key longer than a block
  is hashed first, the key is padded with zero bytes to a block, and the result is
  \<open>H ((K xor opad) || H ((K xor ipad) || text))\<close>.
\<close>

definition HMAC_SHA256 :: "byte list \<Rightarrow> byte list \<Rightarrow> byte list" where
  "HMAC_SHA256 key text =
    (let k = (if length key > 64 then Sum256 key else key);
         k0 = k @ replicate (64 - length k) 0
     in Sum256 (map (\<lambda>b. b XOR 0x5c) k0 @ Sum256 (map (\<lambda>b. b XOR 0x36) k0 @ text)))"

text \<open>
  Lowercase hexadecimal: two digits for each byte, the high four bits first, the
  digits ten to fifteen written \<open>a\<close> to \<open>f\<close>.
\<close>

definition hex_digit :: "nat \<Rightarrow> char" where
  "hex_digit n = (if n < 10 then char_of (48 + n) else char_of (87 + n))"

definition lower_hex :: "byte list \<Rightarrow> string" where
  "lower_hex bs = concat (map (\<lambda>b. [hex_digit (unat b div 16), hex_digit (unat b mod 16)]) bs)"

definition is_lower_hex_digit :: "char \<Rightarrow> bool" where
  "is_lower_hex_digit c \<longleftrightarrow>
     (CHR ''0'' \<le> c \<and> c \<le> CHR ''9'') \<or> (CHR ''a'' \<le> c \<and> c \<le> CHR ''f'')"

section \<open>Errors (\<open>errors.go\<close>)\<close>

text \<open>
  A Go \<open>error\<close> value is one of: a \<open>*APIError\<close> with its code and message; the value
  \<open>fmt.Errorf("...: %w", err)\<close> builds, which wraps another error behind a text; an
  error made by a library (JSON codec, HTTP transport), of which only a description is
  kept.  An \<open>error\<close> variable may be nil, which is \<open>None\<close>.
\<close>

datatype error =
    APIError int string
  | wrapError string error
  | libError string

definition NewAPIError :: "int \<Rightarrow> string \<Rightarrow> error" where
  "NewAPIError code message = APIError code message"

text \<open>\<open>IsAPIError\<close>: the type assertion \<open>err.(*APIError)\<close> succeeds.\<close>

fun IsAPIError :: "error option \<Rightarrow> bool" where
  "IsAPIError (Some (APIError code message)) = True"
| "IsAPIError _ = False"

definition ErrCodeInvalidParams :: int where
  "ErrCodeInvalidParams = 10001"

definition ErrCodeInvalidJSON :: int where
  "ErrCodeInvalidJSON = 10002"

definition ErrCodeMissingParams :: int where
  "ErrCodeMissingParams = 10003"

definition ErrCodeInvalidValue :: int where
  "ErrCodeInvalidValue = 10004"

definition ErrCodeInvalidReceiver :: int where
  "ErrCodeInvalidReceiver = 10005"

definition ErrCodeInvalidTemplate :: int where
  "ErrCodeInvalidTemplate = 10006"

definition ErrCodeUnauthorized :: int where
  "ErrCodeUnauthorized = 20001"

definition ErrCodeInvalidAppID :: int where
  "ErrCodeInvalidAppID = 20002"

definition ErrCodeInvalidSignature :: int where
  "ErrCodeInvalidSignature = 20003"

definition ErrCodeInvalidTimestamp :: int where
  "ErrCodeInvalidTimestamp = 20004"

definition ErrCodeIPNotAllowed :: int where
  "ErrCodeIPNotAllowed = 20005"

definition ErrCodeAppDisabled :: int where
  "ErrCodeAppDisabled = 20006"

definition ErrCodeRateLimitExceeded :: int where
  "ErrCodeRateLimitExceeded = 30001"

definition ErrCodeQuotaExceeded :: int where
  "ErrCodeQuotaExceeded = 30002"

definition ErrCodeChannelNotFound :: int where
  "ErrCodeChannelNotFound = 30003"

definition ErrCodeChannelDisabled :: int where
  "ErrCodeChannelDisabled = 30004"

definition ErrCodeTemplateNotFound :: int where
  "ErrCodeTemplateNotFound = 30005"

definition ErrCodeNoAvailableChannel :: int where
  "ErrCodeNoAvailableChannel = 30006"

definition ErrCodeTaskNotFound :: int where
  "ErrCodeTaskNotFound = 30007"

definition ErrCodeBatchNotFound :: int where
  "ErrCodeBatchNotFound = 30008"

definition ErrCodeInternalError :: int where
  "ErrCodeInternalError = 40001"

definition ErrCodeDatabaseError :: int where
  "ErrCodeDatabaseError = 40002"

definition ErrCodeRedisError :: int where
  "ErrCodeRedisError = 40003"

definition ErrCodeQueueError :: int where
  "ErrCodeQueueError = 40004"

definition ErrCodeProviderError :: int where
  "ErrCodeProviderError = 40005"

definition ErrCodeNetworkTimeout :: int where
  "ErrCodeNetworkTimeout = 40006"

definition ErrCodeCircuitOpen :: int where
  "ErrCodeCircuitOpen = 40007"

definition ErrorCodeMessages :: "(int \<times> string) list" where
  "ErrorCodeMessages = [
     (ErrCodeInvalidParams,
      [CHR 0xE8, CHR 0xAF, CHR 0xB7, CHR 0xE6, CHR 0xB1, CHR 0x82, CHR 0xE5,
       CHR 0x8F, CHR 0x82, CHR 0xE6, CHR 0x95, CHR 0xB0, CHR 0xE9, CHR 0x94,
       CHR 0x99, CHR 0xE8, CHR 0xAF, CHR 0xAF]),
     (ErrCodeInvalidJSON,
      [CHR 0x4A, CHR 0x53, CHR 0x4F, CHR 0x4E, CHR 0xE6, CHR 0xA0, CHR 0xBC,
       CHR 0xE5, CHR 0xBC, CHR 0x8F, CHR 0xE9, CHR 0x94, CHR 0x99, CHR 0xE8,
       CHR 0xAF, CHR 0xAF]),
     (ErrCodeMissingParams,
      [CHR 0xE7, CHR 0xBC, CHR 0xBA, CHR 0xE5, CHR 0xB0, CHR 0x91, CHR 0xE5,
       CHR 0xBF, CHR 0x85, CHR 0xE5, CHR 0xA1, CHR 0xAB, CHR 0xE5, CHR 0x8F,
       CHR 0x82, CHR 0xE6, CHR 0x95, CHR 0xB0]),
     (ErrCodeInvalidValue,
      [CHR 0xE5, CHR 0x8F, CHR 0x82, CHR 0xE6, CHR 0x95, CHR 0xB0, CHR 0xE5,
       CHR 0x80, CHR 0xBC, CHR 0xE9, CHR 0x9D, CHR 0x9E, CHR 0xE6, CHR 0xB3, CHR 0x95]),
     (ErrCodeInvalidReceiver,
      [CHR 0xE6, CHR 0x8E, CHR 0xA5, CHR 0xE6, CHR 0x94, CHR 0xB6, CHR 0xE8,
       CHR 0x80, CHR 0x85, CHR 0xE6, CHR 0xA0, CHR 0xBC, CHR 0xE5, CHR 0xBC,
       CHR 0x8F, CHR 0xE9, CHR 0x94, CHR 0x99, CHR 0xE8, CHR 0xAF, CHR 0xAF]),
     (ErrCodeInvalidTemplate,
      [CHR 0xE6, CHR 0xA8, CHR 0xA1, CHR 0xE6, CHR 0x9D, CHR 0xBF, CHR 0xE5,
       CHR 0x8F, CHR 0x82, CHR 0xE6, CHR 0x95, CHR 0xB0, CHR 0xE9, CHR 0x94,
       CHR 0x99, CHR 0xE8, CHR 0xAF, CHR 0xAF]),
     (ErrCodeUnauthorized,
      [CHR 0xE6, CHR 0x9C, CHR 0xAA, CHR 0xE6, CHR 0x8E, CHR 0x88, CHR 0xE6,
       CHR 0x9D, CHR 0x83]),
     (ErrCodeInvalidAppID,
      [CHR 0xE6, CHR 0x97, CHR 0xA0, CHR 0xE6, CHR 0x95, CHR 0x88, CHR 0xE7,
       CHR 0x9A, CHR 0x84, CHR 0x41, CHR 0x70, CHR 0x70, CHR 0x49, CHR 0x44]),
     (ErrCodeInvalidSignature,
      [CHR 0xE7, CHR 0xAD, CHR 0xBE, CHR 0xE5, CHR 0x90, CHR 0x8D, CHR 0xE9,
       CHR 0xAA, CHR 0x8C, CHR 0xE8, CHR 0xAF, CHR 0x81, CHR 0xE5, CHR 0xA4,
       CHR 0xB1, CHR 0xE8, CHR 0xB4, CHR 0xA5]),
     (ErrCodeInvalidTimestamp,
      [CHR 0xE6, CHR 0x97, CHR 0xB6, CHR 0xE9, CHR 0x97, CHR 0xB4, CHR 0xE6,
       CHR 0x88, CHR 0xB3, CHR 0xE6, CHR 0x97, CHR 0xA0, CHR 0xE6, CHR 0x95, CHR 0x88]),
     (ErrCodeIPNotAllowed,
      [CHR 0x49, CHR 0x50, CHR 0xE4, CHR 0xB8, CHR 0x8D, CHR 0xE5, CHR 0x9C,
       CHR 0xA8, CHR 0xE7, CHR 0x99, CHR 0xBD, CHR 0xE5, CHR 0x90, CHR 0x8D,
       CHR 0xE5, CHR 0x8D, CHR 0x95]),
     (ErrCodeAppDisabled,
      [CHR 0xE5, CHR 0xBA, CHR 0x94, CHR 0xE7, CHR 0x94, CHR 0xA8, CHR 0xE5,
       CHR 0xB7, CHR 0xB2, CHR 0xE7, CHR 0xA6, CHR 0x81, CHR 0xE7, CHR 0x94, CHR 0xA8]),
     (ErrCodeRateLimitExceeded,
      [CHR 0xE8, CHR 0xB6, CHR 0x85, CHR 0xE5, CHR 0x87, CHR 0xBA, CHR 0xE9,
       CHR 0x80, CHR 0x9F, CHR 0xE7, CHR 0x8E, CHR 0x87, CHR 0xE9, CHR 0x99,
       CHR 0x90, CHR 0xE5, CHR 0x88, CHR 0xB6]),
     (ErrCodeQuotaExceeded,
      [CHR 0xE8, CHR 0xB6, CHR 0x85, CHR 0xE5, CHR 0x87, CHR 0xBA, CHR 0xE9,
       CHR 0x85, CHR 0x8D, CHR 0xE9, CHR 0xA2, CHR 0x9D, CHR 0xE9, CHR 0x99,
       CHR 0x90, CHR 0xE5, CHR 0x88, CHR 0xB6]),
     (ErrCodeChannelNotFound,
      [CHR 0xE9, CHR 0x80, CHR 0x9A, CHR 0xE9, CHR 0x81, CHR 0x93, CHR 0xE4,
       CHR 0xB8, CHR 0x8D, CHR 0xE5, CHR 0xAD, CHR 0x98, CHR 0xE5, CHR 0x9C, CHR 0xA8]),
     (ErrCodeChannelDisabled,
      [CHR 0xE9, CHR 0x80, CHR 0x9A, CHR 0xE9, CHR 0x81, CHR 0x93, CHR 0xE5,
       CHR 0xB7, CHR 0xB2, CHR 0xE7, CHR 0xA6, CHR 0x81, CHR 0xE7, CHR 0x94, CHR 0xA8]),
     (ErrCodeTemplateNotFound,
      [CHR 0xE6, CHR 0xA8, CHR 0xA1, CHR 0xE6, CHR 0x9D, CHR 0xBF, CHR 0xE4,
       CHR 0xB8, CHR 0x8D, CHR 0xE5, CHR 0xAD, CHR 0x98, CHR 0xE5, CHR 0x9C, CHR 0xA8]),
     (ErrCodeNoAvailableChannel,
      [CHR 0xE6, CHR 0x97, CHR 0xA0, CHR 0xE5, CHR 0x8F, CHR 0xAF, CHR 0xE7,
       CHR 0x94, CHR 0xA8, CHR 0xE9, CHR 0x80, CHR 0x9A, CHR 0xE9, CHR 0x81, CHR 0x93]),
     (ErrCodeTaskNotFound,
      [CHR 0xE4, CHR 0xBB, CHR 0xBB, CHR 0xE5, CHR 0x8A, CHR 0xA1, CHR 0xE4,
       CHR 0xB8, CHR 0x8D, CHR 0xE5, CHR 0xAD, CHR 0x98, CHR 0xE5, CHR 0x9C, CHR 0xA8]),
     (ErrCodeBatchNotFound,
      [CHR 0xE6, CHR 0x89, CHR 0xB9, CHR 0xE9, CHR 0x87, CHR 0x8F, CHR 0xE4,
       CHR 0xBB, CHR 0xBB, CHR 0xE5, CHR 0x8A, CHR 0xA1, CHR 0xE4, CHR 0xB8,
       CHR 0x8D, CHR 0xE5, CHR 0xAD, CHR 0x98, CHR 0xE5, CHR 0x9C, CHR 0xA8]),
     (ErrCodeInternalError,
      [CHR 0xE5, CHR 0x86, CHR 0x85, CHR 0xE9, CHR 0x83, CHR 0xA8, CHR 0xE9,
       CHR 0x94, CHR 0x99, CHR 0xE8, CHR 0xAF, CHR 0xAF]),
     (ErrCodeDatabaseError,
      [CHR 0xE6, CHR 0x95, CHR 0xB0, CHR 0xE6, CHR 0x8D, CHR 0xAE, CHR 0xE5,
       CHR 0xBA, CHR 0x93, CHR 0xE9, CHR 0x94, CHR 0x99, CHR 0xE8, CHR 0xAF, CHR 0xAF]),
     (ErrCodeRedisError,
      [CHR 0x52, CHR 0x65, CHR 0x64, CHR 0x69, CHR 0x73, CHR 0xE9, CHR 0x94,
       CHR 0x99, CHR 0xE8, CHR 0xAF, CHR 0xAF]),
     (ErrCodeQueueError,
      [CHR 0xE9, CHR 0x98, CHR 0x9F, CHR 0xE5, CHR 0x88, CHR 0x97, CHR 0xE9,
       CHR 0x94, CHR 0x99, CHR 0xE8, CHR 0xAF, CHR 0xAF]),
     (ErrCodeProviderError,
      [CHR 0xE6, CHR 0x9C, CHR 0x8D, CHR 0xE5, CHR 0x8A, CHR 0xA1, CHR 0xE5,
       CHR 0x95, CHR 0x86, CHR 0xE9, CHR 0x94, CHR 0x99, CHR 0xE8, CHR 0xAF, CHR 0xAF]),
     (ErrCodeNetworkTimeout,
      [CHR 0xE7, CHR 0xBD, CHR 0x91, CHR 0xE7, CHR 0xBB, CHR 0x9C, CHR 0xE8,
       CHR 0xB6, CHR 0x85, CHR 0xE6, CHR 0x97, CHR 0xB6]),
     (ErrCodeCircuitOpen,
      [CHR 0xE7, CHR 0x86, CHR 0x94, CHR 0xE6, CHR 0x96, CHR 0xAD, CHR 0xE5,
       CHR 0x99, CHR 0xA8, CHR 0xE6, CHR 0x89, CHR 0x93, CHR 0xE5, CHR 0xBC, CHR 0x80])]"

definition unknown_error_text :: string where
  "unknown_error_text =
     [CHR 0xE6, CHR 0x9C, CHR 0xAA, CHR 0xE7, CHR 0x9F, CHR 0xA5, CHR 0xE9,
       CHR 0x94, CHR 0x99, CHR 0xE8, CHR 0xAF, CHR 0xAF]"

definition GetErrorMessage :: "int \<Rightarrow> string" where
  "GetErrorMessage code =
     (case map_of ErrorCodeMessages code of
        Some msg \<Rightarrow> msg
      | None \<Rightarrow> unknown_error_text)"

section \<open>The dispatcher (\<open>client.go\<close>)\<close>

record Response =
  Code :: int
  Message :: string
  Data :: string

record Client =
  baseURL :: string
  appID :: string
  appSecret :: string

text \<open>
  An \<open>*http.Request\<close> as far as \<open>doRequest\<close> fills it in.  The header is an association
  list from (canonical) header names to values; \<open>Header.Set\<close> replaces the value of a
  name or adds the name.
\<close>

record Request =
  Method :: string
  URL :: string
  Body :: "string option"
  Header :: "(string \<times> string) list"

definition Header_Set :: "(string \<times> string) list \<Rightarrow> string \<Rightarrow> string \<Rightarrow> (string \<times> string) list" where
  "Header_Set h key val = AList.update key val h"

definition MethodPost :: string where
  "MethodPost = ''POST''"

definition MethodGet :: string where
  "MethodGet = ''GET''"

text \<open>
  Everything \<open>doRequest\<close> obtains from outside the package during one call: the clock,
  the UUID generator, the JSON codec on the payload type \<open>'a\<close>, on the envelope and on
  the result type \<open>'d\<close>, the check \<open>http.NewRequestWithContext\<close> makes of method and
  URL, and the exchange itself, which ends in a transport error, in an error while the
  body is read, or in the bytes of the body.  The payload and result shapes of
  \<open>types.go\<close> only pass through the codec, so they stay type parameters.
\<close>

record ('a, 'd) env =
  time_Now_Unix :: int
  uuid_New_String :: string
  json_Marshal_reqData :: "'a \<Rightarrow> error + string"
  json_Unmarshal_params :: "string \<Rightarrow> error + gomap option"
  http_NewRequestWithContext :: "string \<Rightarrow> string \<Rightarrow> error option"
  httpClient_Do :: "Request \<Rightarrow> error + (error + string)"
  json_Unmarshal_Response :: "string \<Rightarrow> error + Response"
  json_Unmarshal_Data :: "string \<Rightarrow> error + 'd"

text \<open>
  The first part of \<open>doRequest\<close>, up to the last \<open>req.Header.Set\<close>: the request that is
  about to be sent, or the error the function returns before sending anything.
  \<open>reqData\<close> is the \<open>interface{}\<close> argument, \<open>None\<close> when it is nil.
\<close>

definition buildRequest ::
  "('a, 'd) env \<Rightarrow> Client \<Rightarrow> string \<Rightarrow> string \<Rightarrow> 'a option \<Rightarrow> error + Request" where
  "buildRequest w c method path reqData =
    (let timestamp = FormatInt (time_Now_Unix w);
         nonce = uuid_New_String w
     in
     case (case reqData of
             None \<Rightarrow> Inr ([], None)
           | Some d \<Rightarrow>
               (case json_Marshal_reqData w d of
                  Inl err \<Rightarrow> Inl (wrapError ''marshal request data'' err)
                | Inr bodyBytes \<Rightarrow>
                    (case json_Unmarshal_params w bodyBytes of
                       Inl err \<Rightarrow> Inl (wrapError ''unmarshal request data to map'' err)
                     | Inr params \<Rightarrow> Inr (bodyBytes, params)))) of
       Inl err \<Rightarrow> Inl err
     | Inr (bodyBytes, params) \<Rightarrow>
         (let signature = generateSignature method path params timestamp nonce (appSecret c);
              url = baseURL c @ path;
              body = (if length bodyBytes > 0 then Some bodyBytes else None)
          in
          case http_NewRequestWithContext w method url of
            Some err \<Rightarrow> Inl (wrapError ''create request'' err)
          | None \<Rightarrow>
              (let h0 = [];
                   h1 = (if method = MethodPost
                         then Header_Set h0 ''Content-Type'' ''application/json'' else h0);
                   h2 = Header_Set h1 ''X-App-Id'' (appID c);
                   h3 = Header_Set h2 ''X-Timestamp'' timestamp;
                   h4 = Header_Set h3 ''X-Nonce'' nonce;
                   h5 = Header_Set h4 ''X-Signature'' signature
               in Inr \<lparr> Method = (if method = [] then MethodGet else method),
                         URL = url, Body = body, Header = h5 \<rparr>)))"

text \<open>
  \<open>doRequest\<close> returns a pair \<open>(*Response, error)\<close>; either component may be nil.
\<close>

definition doRequest ::
  "('a, 'd) env \<Rightarrow> Client \<Rightarrow> string \<Rightarrow> string \<Rightarrow> 'a option
   \<Rightarrow> Response option \<times> error option" where
  "doRequest w c method path reqData =
    (case buildRequest w c method path reqData of
       Inl err \<Rightarrow> (None, Some err)
     | Inr req \<Rightarrow>
         (case httpClient_Do w req of
            Inl err \<Rightarrow> (None, Some (wrapError ''do request'' err))
          | Inr (Inl err) \<Rightarrow> (None, Some (wrapError ''read response body'' err))
          | Inr (Inr respBody) \<Rightarrow>
              (case json_Unmarshal_Response w respBody of
                 Inl err \<Rightarrow> (None, Some (wrapError ''unmarshal response'' err))
               | Inr result \<Rightarrow>
                   if Code result \<noteq> 0
                   then (Some result, Some (NewAPIError (Code result) (Message result)))
                   else (Some result, None))))"

text \<open>
  The three public operations.  An error of \<open>doRequest\<close> is passed on with a nil result;
  otherwise \<open>resp.Data\<close> is decoded.  The argument \<open>req\<close> is a (possibly nil) pointer, and
  an interface that holds a typed pointer is never nil, so \<open>doRequest\<close> gets \<open>Some req\<close>.
  \<open>doRequest\<close> never returns two nils; there the source would dereference a nil pointer,
  which is kept as an error of its own.
\<close>

definition SendMessage :: "('a, 'd) env \<Rightarrow> Client \<Rightarrow> 'a \<Rightarrow> 'd option \<times> error option" where
  "SendMessage w c req =
    (case doRequest w c MethodPost ''/api/v1/messages'' (Some req) of
       (resp, Some err) \<Rightarrow> (None, Some err)
     | (Some resp, None) \<Rightarrow>
         (case json_Unmarshal_Data w (Data resp) of
            Inl err \<Rightarrow> (None, Some (wrapError ''unmarshal response data'' err))
          | Inr data \<Rightarrow> (Some data, None))
     | (None, None) \<Rightarrow> (None, Some (libError ''nil pointer dereference'')))"

definition SendBatch :: "('a, 'd) env \<Rightarrow> Client \<Rightarrow> 'a \<Rightarrow> 'd option \<times> error option" where
  "SendBatch w c req =
    (case doRequest w c MethodPost ''/api/v1/messages/batch'' (Some req) of
       (resp, Some err) \<Rightarrow> (None, Some err)
     | (Some resp, None) \<Rightarrow>
         (case json_Unmarshal_Data w (Data resp) of
            Inl err \<Rightarrow> (None, Some (wrapError ''unmarshal response data'' err))
          | Inr data \<Rightarrow> (Some data, None))
     | (None, None) \<Rightarrow> (None, Some (libError ''nil pointer dereference'')))"

definition QueryTask :: "('a, 'd) env \<Rightarrow> Client \<Rightarrow> string \<Rightarrow> 'd option \<times> error option" where
  "QueryTask w c taskID =
    (let path = ''/api/v1/messages/'' @ taskID in
     case doRequest w c MethodGet path None of
       (resp, Some err) \<Rightarrow> (None, Some err)
     | (Some resp, None) \<Rightarrow>
         (case json_Unmarshal_Data w (Data resp) of
            Inl err \<Rightarrow> (None, Some (wrapError ''unmarshal response data'' err))
          | Inr data \<Rightarrow> (Some data, None))
     | (None, None) \<Rightarrow> (None, Some (libError ''nil pointer dereference'')))"

definition has_content_type :: "Request \<Rightarrow> bool" where
  "has_content_type req \<longleftrightarrow> map_of (Header req) ''Content-Type'' \<noteq> None"

definition has_body :: "Request \<Rightarrow> bool" where
  "has_body req \<longleftrightarrow> Body req \<noteq> None"

text \<open>The texts \<open>doRequest\<close> puts in front of the errors it wraps.\<close>

definition doRequest_tags :: "string list" where
  "doRequest_tags =
     [''marshal request data'', ''unmarshal request data to map'', ''create request'',
      ''do request'', ''read response body'', ''unmarshal response'']"

subsection \<open>Concrete runs\<close>

text \<open>
  A client and three environments to run the dispatcher in.  In \<open>rejecting_env\<close> the
  server answers every request with the envelope
  \<open>{"code":20003,"message":"signature invalid"}\<close>; in \<open>accepting_env\<close> it answers with
  code 0 and a data field; in \<open>timeout_env\<close> the exchange ends with a transport error.
  The payload is a Go value, serialised by the encoder above; the decoders know the
  texts that occur in these runs.
\<close>

definition test_client :: Client where
  "test_client = \<lparr> baseURL = ''http://127.0.0.1:8080'', appID = ''test_app_id'',
                    appSecret = ''test_secret'' \<rparr>"

definition test_payload :: gomap where
  "test_payload = [(''channel_id'', VInt 1), (''receiver'', VString ''13800138000'')]"

definition rejected_body :: string where
  \<open>rejected_body = ''{"code":20003,"message":"signature invalid"}''\<close>

definition accepted_body :: string where
  \<open>accepted_body = ''{"code":0,"message":"success","data":{"task_id":"T1"}}''\<close>

definition decode_envelope :: "string \<Rightarrow> error + Response" where
  \<open>decode_envelope b =
     (if b = rejected_body
      then Inr \<lparr> Code = 20003, Message = ''signature invalid'', Data = [] \<rparr>
      else if b = accepted_body
      then Inr \<lparr> Code = 0, Message = ''success'', Data = ''{"task_id":"T1"}'' \<rparr>
      else Inl (libError ''invalid character''))\<close>

definition rejecting_env :: "(gomap, string) env" where
  "rejecting_env =
     \<lparr> time_Now_Unix = 1700000000,
       uuid_New_String = ''0b0e4a1c-5d2f-4c3a-9e57-1f6a8d2b7c90'',
       json_Marshal_reqData = (\<lambda>m. Inr (json_Marshal (VMap m))),
       json_Unmarshal_params = (\<lambda>b. Inr (Some test_payload)),
       http_NewRequestWithContext = (\<lambda>method url. None),
       httpClient_Do = (\<lambda>req. Inr (Inr rejected_body)),
       json_Unmarshal_Response = decode_envelope,
       json_Unmarshal_Data = (\<lambda>b. if b = [] then Inl (libError ''unexpected end of JSON input'')
                                   else Inr b) \<rparr>"

definition accepting_env :: "(gomap, string) env" where
  "accepting_env = rejecting_env \<lparr> httpClient_Do := (\<lambda>req. Inr (Inr accepted_body)) \<rparr>"

definition timeout_env :: "(gomap, string) env" where
  "timeout_env =
     rejecting_env \<lparr> httpClient_Do := (\<lambda>req. Inl (libError ''context deadline exceeded'')) \<rparr>"

section \<open>Properties of the canonical parameter string\<close>

lemma update_fresh: "k \<notin> fst ` set al \<Longrightarrow> AList.update k v al = al @ [(k, v)]"
  by (induction al) auto

lemma foldl_map_assign:
  "distinct ks \<Longrightarrow> set ks \<inter> fst ` set acc = {} \<Longrightarrow>
   foldl (\<lambda>sm k. map_assign sm k (f k)) acc ks = acc @ map (\<lambda>k. (k, f k)) ks"
proof (induction ks arbitrary: acc)
  case Nil
  then show ?case by simp
next
  case (Cons k ks)
  have fresh: "k \<notin> fst ` set acc" using Cons.prems by auto
  have step: "map_assign acc k (f k) = acc @ [(k, f k)]"
    by (simp add: map_assign_def update_fresh [OF fresh])
  have "set ks \<inter> fst ` set (acc @ [(k, f k)]) = {}"
    using Cons.prems by auto
  with Cons.IH [of "acc @ [(k, f k)]"] Cons.prems show ?case
    by (simp add: step)
qed

lemma entries_from_keys:
  "distinct (map fst m) \<Longrightarrow> set xs \<subseteq> set m \<Longrightarrow>
   map (\<lambda>k. (k, map_index (Some m) k)) (map fst xs) = xs"
proof (induction xs)
  case Nil
  then show ?case by simp
next
  case (Cons x xs)
  obtain k v where x: "x = (k, v)" by (cases x)
  have "(k, v) \<in> set m" using Cons.prems x by simp
  then have "map_of m k = Some v" using Cons.prems(1) by simp
  then have "map_index (Some m) k = v" by (simp add: map_index_def)
  with Cons x show ?case by simp
qed

lemma map_fst_insort_key:
  "map fst (insort_key fst x xs) = insort (fst x) (map fst xs)"
  by (induction xs) simp_all

lemma map_fst_sort_key: "map fst (sort_key fst m) = sort (map fst m)"
  by (induction m) (simp_all add: map_fst_insort_key)

lemma sortedMap_eq:
  assumes "distinct (map fst m)"
  shows "foldl (\<lambda>sm k. map_assign sm k (map_index (Some m) k)) [] (sort (map fst m))
         = sort_key fst m"
proof -
  have "foldl (\<lambda>sm k. map_assign sm k (map_index (Some m) k)) [] (sort (map fst m))
        = map (\<lambda>k. (k, map_index (Some m) k)) (sort (map fst m))"
    using foldl_map_assign [of "sort (map fst m)" "[]" "map_index (Some m)"] assms
    by simp
  also have "\<dots> = map (\<lambda>k. (k, map_index (Some m) k)) (map fst (sort_key fst m))"
    by (simp only: map_fst_sort_key)
  also have "\<dots> = sort_key fst m"
    using entries_from_keys [OF assms, of "sort_key fst m"] by simp
  finally show ?thesis .
qed

lemma sort_key_idem:
  "sort_key fst (sort_key fst m) = sort_key fst (m :: ('a :: linorder \<times> 'b) list)"
  by (rule sort_key_id_if_sorted) (rule sorted_sort_key)

lemma Marshal_VMap: "json_Marshal (VMap m) = write_object (sort_key fst m)"
  by (simp add: write_object_def)

lemma sortParams_Some:
  assumes "m \<noteq> []" and "distinct (map fst m)"
  shows "sortParams (Some m) = json_Marshal (VMap m)"
proof -
  have "map_len (Some m) \<noteq> 0" using assms(1) by (simp add: map_len_def)
  then have "sortParams (Some m) = json_Marshal (VMap (sort_key fst m))"
    by (simp add: sortParams_def map_range_keys_def sortedMap_eq [OF assms(2)])
  then show ?thesis by (simp only: Marshal_VMap sort_key_idem)
qed

lemma sort_key_fst_unique:
  fixes m1 m2 :: gomap
  assumes "distinct (map fst m1)" and "distinct (map fst m2)" and "set m1 = set m2"
  shows "sort_key fst m1 = sort_key fst m2"
proof -
  have "fst ` set m1 = fst ` set m2" using assms(3) by simp
  then have "set (map fst m1) = set (map fst m2)" by simp
  then have keys: "sort (map fst m1) = sort (map fst m2)"
    using assms(1,2) by (metis sorted_sort distinct_sort set_sort sorted_distinct_set_unique)
  have "sort_key fst m1 = map (\<lambda>k. (k, map_index (Some m1) k)) (map fst (sort_key fst m1))"
    using entries_from_keys [OF assms(1), of "sort_key fst m1"] by simp
  also have "\<dots> = map (\<lambda>k. (k, map_index (Some m1) k)) (map fst (sort_key fst m2))"
    by (simp only: map_fst_sort_key keys)
  also have "\<dots> = map (\<lambda>k. (k, map_index (Some m2) k)) (map fst (sort_key fst m2))"
  proof -
    have "map_of m1 = map_of m2"
      using assms by (intro map_of_inject_set [THEN iffD2]) auto
    then have "map_index (Some m1) = map_index (Some m2)"
      by (auto simp: map_index_def fun_eq_iff)
    then show ?thesis by simp
  qed
  also have "\<dots> = sort_key fst m2"
    using entries_from_keys [OF assms(2), of "sort_key fst m2"] by simp
  finally show ?thesis .
qed

lemma strict_sorted_keys:
  "distinct (map fst m) \<Longrightarrow> sorted_wrt (<) (map fst (sort_key fst m))"
  by (simp add: map_fst_sort_key strict_sorted_iff)

lemma sortParams_len0: "map_len params = 0 \<Longrightarrow> sortParams params = []"
  by (simp add: sortParams_def)

text \<open>
  C2.  For a parameter map that is nil or has no entries, the canonical parameter string
  is the empty string; it is neither the two characters of an empty JSON object nor the
  text \<open>null\<close>.
\<close>

theorem sortParams_empty_or_nil:
  "params = None \<or> params = Some [] \<Longrightarrow>
   sortParams params = [] \<and> sortParams params \<noteq> ''{}'' \<and> sortParams params \<noteq> ''null''"
  by (auto simp: sortParams_def map_len_def)

theorem sortParams_empty_or_nil_witness:
  "sortParams None = [] \<and> sortParams None \<noteq> ''{}'' \<and> sortParams None \<noteq> ''null''
   \<and> sortParams (Some []) = [] \<and> sortParams (Some []) \<noteq> ''{}''
   \<and> sortParams (Some []) \<noteq> ''null''"
  using sortParams_empty_or_nil [of None] sortParams_empty_or_nil [of "Some []"]
  by simp

text \<open>
  C3.  Two maps with the same entries, listed in any two orders, have the same canonical
  string; for a non-empty map that string is the JSON object whose members are the
  entries of the map with their keys in strictly ascending byte-wise lexicographic order.
\<close>

theorem sortParams_order_independent:
  assumes "distinct (map fst m1)" and "distinct (map fst m2)" and "set m1 = set m2"
  shows "sortParams (Some m1) = sortParams (Some m2)
    \<and> (m1 \<noteq> [] \<longrightarrow>
         sortParams (Some m1) = write_object (sort_key fst m1)
         \<and> set (sort_key fst m1) = set m1
         \<and> sorted_wrt (<) (map fst (sort_key fst m1)))"
proof -
  have same: "sort_key fst m1 = sort_key fst m2"
    using assms by (rule sort_key_fst_unique)
  have eq: "sortParams (Some m1) = sortParams (Some m2)"
  proof (cases "m1 = []")
    case True
    with assms(3) have "m2 = []" by simp
    with True show ?thesis by simp
  next
    case False
    with assms(3) have "m2 \<noteq> []" by auto
    with False assms(1,2) same show ?thesis
      by (simp add: sortParams_Some)
  qed
  have "sortParams (Some m1) = write_object (sort_key fst m1)" if "m1 \<noteq> []"
    using that assms(1) by (simp add: sortParams_Some write_object_def)
  with eq assms(1) show ?thesis
    by (simp add: strict_sorted_keys)
qed

theorem sortParams_order_independent_witness:
  \<open>sortParams (Some [(''b'', VInt 2), (''a'', VString ''x'')])
     = sortParams (Some [(''a'', VString ''x''), (''b'', VInt 2)])
   \<and> sortParams (Some [(''b'', VInt 2), (''a'', VString ''x'')])
       = write_object [(''a'', VString ''x''), (''b'', VInt 2)]
   \<and> write_object [(''a'', VString ''x''), (''b'', VInt 2)] = ''{"a":"x","b":2}''\<close>
proof -
  let ?m1 = "[(''b'', VInt 2), (''a'', VString ''x'')]"
  let ?m2 = "[(''a'', VString ''x''), (''b'', VInt 2)]"
  have d1: "distinct (map fst ?m1)" and d2: "distinct (map fst ?m2)" by simp_all
  have s: "set ?m1 = set ?m2" by (simp add: insert_commute)
  have srt: "sort_key fst ?m1 = ?m2" by code_simp
  have obj: \<open>write_object ?m2 = ''{"a":"x","b":2}''\<close> by code_simp
  have ne: "?m1 \<noteq> []" by simp
  note inst = sortParams_order_independent [OF d1 d2 s]
  from inst have a: "sortParams (Some ?m1) = sortParams (Some ?m2)" ..
  from inst ne have b: "sortParams (Some ?m1) = write_object (sort_key fst ?m1)"
    by blast
  from b have c: "sortParams (Some ?m1) = write_object ?m2" by (simp only: srt)
  from a c obj show ?thesis by (intro conjI)
qed

text \<open>
  C10.  For a non-empty map the result of \<open>sortParams\<close> is what \<open>json.Marshal\<close> gives on
  the map itself: sorting the keys and rebuilding the map changes nothing, because the
  encoder writes the keys of a map in sorted order.
\<close>

theorem sortParams_is_plain_Marshal:
  "m \<noteq> [] \<Longrightarrow> distinct (map fst m) \<Longrightarrow> sortParams (Some m) = json_Marshal (VMap m)"
  by (rule sortParams_Some)

theorem sortParams_is_plain_Marshal_witness:
  \<open>[(''receiver'', VString ''13800138000''), (''channel_id'', VInt 1)] \<noteq> []
   \<and> distinct (map fst [(''receiver'', VString ''13800138000''), (''channel_id'', VInt 1)])
   \<and> sortParams (Some [(''receiver'', VString ''13800138000''), (''channel_id'', VInt 1)])
       = json_Marshal (VMap [(''receiver'', VString ''13800138000''), (''channel_id'', VInt 1)])
   \<and> json_Marshal (VMap [(''receiver'', VString ''13800138000''), (''channel_id'', VInt 1)])
       = ''{"channel_id":1,"receiver":"13800138000"}''\<close>
proof -
  let ?m = "[(''receiver'', VString ''13800138000''), (''channel_id'', VInt 1)]"
  have ne: "?m \<noteq> []" by simp
  have d: "distinct (map fst ?m)" by simp
  have v: \<open>json_Marshal (VMap ?m) = ''{"channel_id":1,"receiver":"13800138000"}''\<close>
    by code_simp
  from ne d sortParams_is_plain_Marshal [OF ne d] v show ?thesis
    by (intro conjI)
qed

lemma Marshal_test_params:
  \<open>json_Marshal (VMap [(''channel_id'', VInt 1), (''receiver'', VString ''13800138000''),
      (''template_params'', VMap [(''code'', VString ''123456'')])])
   = ''{"channel_id":1,"receiver":"13800138000","template_params":{"code":"123456"}}''\<close>
  by code_simp

lemma sortParams_single_key:
  \<open>sortParams (Some [(''key'', VString ''value'')]) = ''{"key":"value"}''\<close>
  by code_simp

text \<open>
  C7.  The map with the single entry \<open>key\<close>, \<open>value\<close> has the canonical string
  \<open>{"key":"value"}\<close>; a map that holds \<open>channel_id = 1\<close>, \<open>receiver = "13800138000"\<close>
  and \<open>template_params = {"code":"123456"}\<close>, with its entries in any order, has the
  canonical string
  \<open>{"channel_id":1,"receiver":"13800138000","template_params":{"code":"123456"}}\<close>.
\<close>

theorem sortParams_vectors:
  \<open>sortParams (Some [(''key'', VString ''value'')]) = ''{"key":"value"}''
   \<and> (distinct (map fst m)
        \<and> set m = {(''channel_id'', VInt 1), (''receiver'', VString ''13800138000''),
                    (''template_params'', VMap [(''code'', VString ''123456'')])}
      \<longrightarrow> sortParams (Some m)
          = ''{"channel_id":1,"receiver":"13800138000","template_params":{"code":"123456"}}'')\<close>
proof (intro conjI impI)
  show \<open>sortParams (Some [(''key'', VString ''value'')]) = ''{"key":"value"}''\<close>
    by (rule sortParams_single_key)
next
  let ?c = "[(''channel_id'', VInt 1), (''receiver'', VString ''13800138000''),
             (''template_params'', VMap [(''code'', VString ''123456'')])]"
  assume asm: "distinct (map fst m)
        \<and> set m = {(''channel_id'', VInt 1), (''receiver'', VString ''13800138000''),
                    (''template_params'', VMap [(''code'', VString ''123456'')])}"
  then have d: "distinct (map fst m)" and s: "set m = set ?c"
    by simp_all
  have "(''channel_id'', VInt 1) \<in> set m"
    unfolding s by simp
  then have ne: "m \<noteq> []"
    by (metis empty_iff empty_set)
  have "sort_key fst m = sort_key fst ?c"
    using d _ s by (rule sort_key_fst_unique) simp
  then have "json_Marshal (VMap m) = json_Marshal (VMap ?c)"
    by (simp only: json_Marshal.simps)
  then show \<open>sortParams (Some m)
      = ''{"channel_id":1,"receiver":"13800138000","template_params":{"code":"123456"}}''\<close>
    by (simp only: sortParams_Some [OF ne d] Marshal_test_params)
qed

theorem sortParams_vectors_witness:
  \<open>sortParams (Some [(''template_params'', VMap [(''code'', VString ''123456'')]),
                      (''receiver'', VString ''13800138000''), (''channel_id'', VInt 1)])
   = ''{"channel_id":1,"receiver":"13800138000","template_params":{"code":"123456"}}''
   \<and> sortParams (Some [(''receiver'', VString ''13800138000''), (''channel_id'', VInt 1),
                      (''template_params'', VMap [(''code'', VString ''123456'')])])
   = ''{"channel_id":1,"receiver":"13800138000","template_params":{"code":"123456"}}''\<close>
proof -
  let ?a = "[(''template_params'', VMap [(''code'', VString ''123456'')]),
             (''receiver'', VString ''13800138000''), (''channel_id'', VInt 1)]"
  let ?b = "[(''receiver'', VString ''13800138000''), (''channel_id'', VInt 1),
             (''template_params'', VMap [(''code'', VString ''123456'')])]"
  let ?S = "{(''channel_id'', VInt 1), (''receiver'', VString ''13800138000''),
             (''template_params'', VMap [(''code'', VString ''123456'')])}"
  have da: "distinct (map fst ?a)" and db: "distinct (map fst ?b)" by simp_all
  have sa: "set ?a = ?S" and sb: "set ?b = ?S" by (simp_all add: insert_commute)
  from sortParams_vectors [of ?a] da sa
  have a: \<open>sortParams (Some ?a)
      = ''{"channel_id":1,"receiver":"13800138000","template_params":{"code":"123456"}}''\<close>
    by blast
  from sortParams_vectors [of ?b] db sb
  have b: \<open>sortParams (Some ?b)
      = ''{"channel_id":1,"receiver":"13800138000","template_params":{"code":"123456"}}''\<close>
    by blast
  from a b show ?thesis by (intro conjI)
qed

section \<open>The signature\<close>

lemma length_PutUint32: "length (PutUint32 v) = 4"
  by (simp add: PutUint32_def)

lemma length_Sum256: "length (Sum256 msg) = 32"
  by (simp add: Sum256_def length_PutUint32 split: prod.splits)

lemma copy_zero_block:
  "length key \<le> 64 \<Longrightarrow> copy (replicate 64 0) key = key @ replicate (64 - length key) 0"
  by (simp add: copy_def)

lemma hmac_is_HMAC_SHA256:
  "hmac_Sum (hmac_Write (hmac_New key) text) [] = HMAC_SHA256 key text"
proof (cases "length key > 64")
  case True
  have "length (Sum256 key) \<le> 64" by (simp add: length_Sum256)
  from copy_zero_block [OF this] True show ?thesis
    by (simp add: hmac_Sum_def hmac_Write_def hmac_New_def HMAC_SHA256_def Let_def
        digest_Sum_def digest_Write_def digest_Reset_def sha256_New_def BlockSize_def
        length_Sum256)
next
  case False
  then have "length key \<le> 64" by simp
  from copy_zero_block [OF this] False show ?thesis
    by (simp add: hmac_Sum_def hmac_Write_def hmac_New_def HMAC_SHA256_def Let_def
        digest_Sum_def digest_Write_def digest_Reset_def sha256_New_def BlockSize_def)
qed

lemma hex_digit_values: "map hex_digit [0..<16] = hextable"
  by code_simp

lemma hextable_nth: "n < 16 \<Longrightarrow> hextable ! n = hex_digit n"
proof -
  assume n: "n < 16"
  have "hextable ! n = map hex_digit [0..<16] ! n"
    by (simp only: hex_digit_values)
  also have "\<dots> = hex_digit ([0..<16] ! n)"
    using n by (intro nth_map) simp
  also have "\<dots> = hex_digit n"
    using n by simp
  finally show ?thesis .
qed

lemma hextable_digits: "list_all is_lower_hex_digit hextable"
  by code_simp

lemma hex_digit_lower: "n < 16 \<Longrightarrow> is_lower_hex_digit (hex_digit n)"
proof -
  assume n: "n < 16"
  have "length hextable = 16" by (simp add: hextable_def)
  with n have "hextable ! n \<in> set hextable" by simp
  with hextable_digits have "is_lower_hex_digit (hextable ! n)"
    by (simp add: list_all_iff)
  with n show ?thesis by (simp add: hextable_nth)
qed

lemma unat_high_nibble: "unat (drop_bit 4 (v :: byte)) = unat v div 16"
  by (simp add: drop_bit_eq_div unat_div)

lemma unat_low_nibble: "unat ((v :: byte) AND 0x0f) = unat v mod 16"
proof -
  have "(v AND 0x0f) = take_bit 4 v"
    by (simp add: take_bit_eq_mask mask_eq_exp_minus_1)
  then show ?thesis
    by (simp add: take_bit_eq_mod unat_mod)
qed

lemma byte_div_16: "unat (v :: byte) div 16 < 16"
proof -
  have "unat v < 256" using unsigned_less [of v] by simp
  then show ?thesis by simp
qed

lemma EncodeToString_lower_hex: "EncodeToString src = lower_hex src"
  by (simp add: EncodeToString_def lower_hex_def unat_high_nibble unat_low_nibble
      hextable_nth byte_div_16)

lemma length_lower_hex: "length (lower_hex bs) = 2 * length bs"
  by (induction bs) (simp_all add: lower_hex_def)

lemma lower_hex_digits: "list_all is_lower_hex_digit (lower_hex bs)"
  by (induction bs) (simp_all add: lower_hex_def hex_digit_lower byte_div_16)

lemma length_HMAC_SHA256: "length (HMAC_SHA256 key text) = 32"
  by (simp add: HMAC_SHA256_def Let_def length_Sum256)

text \<open>
  C1.  The signature is the lowercase hexadecimal text of the HMAC-SHA256, keyed by the
  bytes of the secret, of the bytes of method, path, canonical parameter string,
  timestamp and nonce, concatenated in this order with nothing between them.  The
  canonical parameter string is the one \<open>sortParams\<close> computes.
\<close>

theorem generateSignature_is_hex_hmac:
  "generateSignature method path params timestamp nonce secret =
     lower_hex (HMAC_SHA256 (bytes_of secret)
                  (bytes_of (method @ path @ sortParams params @ timestamp @ nonce)))"
  by (simp only: generateSignature_def Let_def hmac_is_HMAC_SHA256 EncodeToString_lower_hex)

text \<open>
  C6.  Whatever the inputs, the signature has exactly 64 characters, each of them one
  of \<open>0\<close> to \<open>9\<close> and \<open>a\<close> to \<open>f\<close>.
\<close>

theorem generateSignature_64_lower_hex:
  "length (generateSignature method path params timestamp nonce secret) = 64
   \<and> list_all is_lower_hex_digit
         (generateSignature method path params timestamp nonce secret)"
proof -
  have eq: "generateSignature method path params timestamp nonce secret =
     lower_hex (HMAC_SHA256 (bytes_of secret)
                  (bytes_of (method @ path @ sortParams params @ timestamp @ nonce)))"
    by (simp only: generateSignature_def Let_def hmac_is_HMAC_SHA256 EncodeToString_lower_hex)
  show ?thesis
    unfolding eq by (simp add: length_lower_hex length_HMAC_SHA256 lower_hex_digits)
qed

text \<open>
  A known answer, evaluated in the model: for the method \<open>GET\<close>, the path \<open>/t\<close>, no
  parameters, the timestamp \<open>1\<close>, the nonce \<open>n\<close> and the secret \<open>k\<close> the signature is the
  HMAC-SHA256 of \<open>GET/t1n\<close> under the key \<open>k\<close>, as any implementation of the standard
  computes it.
\<close>

lemma generateSignature_known_answer:
  "generateSignature ''GET'' ''/t'' None ''1'' ''n'' ''k''
     = ''8b23bc7f4690313d116deeadd8bf22f3ee9ea9f5155da564b317b6fbb486578f''"
  by code_simp

section \<open>The error-code table\<close>

lemma ErrorCodeMessages_keys:
  "map fst ErrorCodeMessages =
     [10001, 10002, 10003, 10004, 10005, 10006,
      20001, 20002, 20003, 20004, 20005, 20006,
      30001, 30002, 30003, 30004, 30005, 30006, 30007, 30008,
      40001, 40002, 40003, 40004, 40005, 40006, 40007]"
  by (simp add: ErrorCodeMessages_def
      ErrCodeInvalidParams_def ErrCodeInvalidJSON_def ErrCodeMissingParams_def
      ErrCodeInvalidValue_def ErrCodeInvalidReceiver_def ErrCodeInvalidTemplate_def
      ErrCodeUnauthorized_def ErrCodeInvalidAppID_def ErrCodeInvalidSignature_def
      ErrCodeInvalidTimestamp_def ErrCodeIPNotAllowed_def ErrCodeAppDisabled_def
      ErrCodeRateLimitExceeded_def ErrCodeQuotaExceeded_def ErrCodeChannelNotFound_def
      ErrCodeChannelDisabled_def ErrCodeTemplateNotFound_def ErrCodeNoAvailableChannel_def
      ErrCodeTaskNotFound_def ErrCodeBatchNotFound_def
      ErrCodeInternalError_def ErrCodeDatabaseError_def ErrCodeRedisError_def
      ErrCodeQueueError_def ErrCodeProviderError_def ErrCodeNetworkTimeout_def
      ErrCodeCircuitOpen_def)

lemma ErrorCodeMessages_distinct: "distinct (map fst ErrorCodeMessages)"
  unfolding ErrorCodeMessages_keys by simp

text \<open>
  C9.  \<open>GetErrorMessage\<close> is defined on every integer.  The table has one entry for each
  of its keys; for a code that is a key the result is the message of that entry, and for
  any other code it is the generic unknown-error text.
\<close>

theorem GetErrorMessage_table_or_unknown:
  "distinct (map fst ErrorCodeMessages)
   \<and> (code \<in> fst ` set ErrorCodeMessages
        \<longrightarrow> (code, GetErrorMessage code) \<in> set ErrorCodeMessages)
   \<and> (code \<notin> fst ` set ErrorCodeMessages \<longrightarrow> GetErrorMessage code = unknown_error_text)"
proof (intro conjI impI)
  show "distinct (map fst ErrorCodeMessages)" by (rule ErrorCodeMessages_distinct)
next
  assume "code \<in> fst ` set ErrorCodeMessages"
  then obtain msg where m: "map_of ErrorCodeMessages code = Some msg"
    by (metis map_of_eq_None_iff not_Some_eq)
  then have "GetErrorMessage code = msg" by (simp add: GetErrorMessage_def)
  with m show "(code, GetErrorMessage code) \<in> set ErrorCodeMessages"
    by (simp add: map_of_SomeD)
next
  assume "code \<notin> fst ` set ErrorCodeMessages"
  then have "map_of ErrorCodeMessages code = None"
    by (simp add: map_of_eq_None_iff)
  then show "GetErrorMessage code = unknown_error_text"
    by (simp add: GetErrorMessage_def)
qed

lemma in_keys_20003: "(20003 :: int) \<in> fst ` set ErrorCodeMessages"
proof -
  have "(20003 :: int) \<in> set (map fst ErrorCodeMessages)"
    unfolding ErrorCodeMessages_keys by simp
  then show ?thesis by simp
qed

lemma notin_keys_99999: "(99999 :: int) \<notin> fst ` set ErrorCodeMessages"
proof -
  have "(99999 :: int) \<notin> set (map fst ErrorCodeMessages)"
    unfolding ErrorCodeMessages_keys by simp
  then show ?thesis by simp
qed

theorem GetErrorMessage_table_or_unknown_witness:
  "(20003, GetErrorMessage 20003) \<in> set ErrorCodeMessages
   \<and> GetErrorMessage ErrCodeInvalidSignature =
       [CHR 0xE7, CHR 0xAD, CHR 0xBE, CHR 0xE5, CHR 0x90, CHR 0x8D, CHR 0xE9, CHR 0xAA,
        CHR 0x8C, CHR 0xE8, CHR 0xAF, CHR 0x81, CHR 0xE5, CHR 0xA4, CHR 0xB1, CHR 0xE8,
        CHR 0xB4, CHR 0xA5]
   \<and> GetErrorMessage 99999 = unknown_error_text
   \<and> GetErrorMessage 0 = unknown_error_text"
proof -
  have a: "(20003, GetErrorMessage 20003) \<in> set ErrorCodeMessages"
    using GetErrorMessage_table_or_unknown [of 20003] in_keys_20003 by blast
  have b: "GetErrorMessage 99999 = unknown_error_text"
    using GetErrorMessage_table_or_unknown [of 99999] notin_keys_99999 by blast
  have "(0 :: int) \<notin> set (map fst ErrorCodeMessages)"
    unfolding ErrorCodeMessages_keys by simp
  then have "(0 :: int) \<notin> fst ` set ErrorCodeMessages" by simp
  then have c: "GetErrorMessage 0 = unknown_error_text"
    using GetErrorMessage_table_or_unknown [of 0] by blast
  have d: "GetErrorMessage ErrCodeInvalidSignature =
       [CHR 0xE7, CHR 0xAD, CHR 0xBE, CHR 0xE5, CHR 0x90, CHR 0x8D, CHR 0xE9, CHR 0xAA,
        CHR 0x8C, CHR 0xE8, CHR 0xAF, CHR 0x81, CHR 0xE5, CHR 0xA4, CHR 0xB1, CHR 0xE8,
        CHR 0xB4, CHR 0xA5]"
    by code_simp
  from a d b c show ?thesis by (intro conjI)
qed

section \<open>The dispatcher\<close>

lemma doRequest_decoded:
  assumes "buildRequest w c method path reqData = Inr rq"
    and "httpClient_Do w rq = Inr (Inr body)"
    and "json_Unmarshal_Response w body = Inr r"
  shows "doRequest w c method path reqData =
           (if Code r \<noteq> 0 then (Some r, Some (APIError (Code r) (Message r)))
            else (Some r, None))"
  using assms by (simp add: doRequest_def NewAPIError_def)

lemma buildRequest_headers:
  assumes "buildRequest w c method path reqData = Inr rq"
  shows "map fst (Header rq) =
           (if method = MethodPost then [''Content-Type''] else [])
           @ [''X-App-Id'', ''X-Timestamp'', ''X-Nonce'', ''X-Signature'']"
  using assms
  by (auto simp: buildRequest_def Header_Set_def Let_def
           split: option.splits sum.splits if_splits prod.splits)

lemma buildRequest_body:
  assumes "buildRequest w c method path reqData = Inr rq"
  shows "has_body rq \<longleftrightarrow>
           (\<exists>d bodyBytes. reqData = Some d \<and> json_Marshal_reqData w d = Inr bodyBytes
                           \<and> bodyBytes \<noteq> [])"
  using assms
  by (auto simp: buildRequest_def has_body_def Let_def
           split: option.splits sum.splits if_splits prod.splits)

lemma has_content_type_iff:
  assumes "buildRequest w c method path reqData = Inr rq"
  shows "has_content_type rq \<longleftrightarrow> method = MethodPost"
proof -
  have "has_content_type rq \<longleftrightarrow> ''Content-Type'' \<in> set (map fst (Header rq))"
    by (simp add: has_content_type_def map_of_eq_None_iff)
  also have "\<dots> \<longleftrightarrow> method = MethodPost"
    unfolding buildRequest_headers [OF assms] by simp
  finally show ?thesis .
qed

lemma json_Marshal_VMap_nonempty: "json_Marshal (VMap m) \<noteq> []"
  by simp

text \<open>
  C4.  When the exchange of a public operation yields a body that decodes to an envelope
  with a nonzero code, the operation returns no result and the business error that
  carries exactly the code and the message of the envelope.
\<close>

theorem nonzero_code_is_business_error:
  assumes "httpClient_Do w rq = Inr (Inr body)"
    and "json_Unmarshal_Response w body = Inr r"
    and "Code r \<noteq> 0"
  shows "(buildRequest w c MethodPost ''/api/v1/messages'' (Some req) = Inr rq
            \<longrightarrow> SendMessage w c req = (None, Some (APIError (Code r) (Message r))))
       \<and> (buildRequest w c MethodPost ''/api/v1/messages/batch'' (Some req) = Inr rq
            \<longrightarrow> SendBatch w c req = (None, Some (APIError (Code r) (Message r))))
       \<and> (buildRequest w c MethodGet (''/api/v1/messages/'' @ taskID) None = Inr rq
            \<longrightarrow> QueryTask w c taskID = (None, Some (APIError (Code r) (Message r))))"
proof (intro conjI impI)
  assume "buildRequest w c MethodPost ''/api/v1/messages'' (Some req) = Inr rq"
  from doRequest_decoded [OF this assms(1,2)] assms(3)
  show "SendMessage w c req = (None, Some (APIError (Code r) (Message r)))"
    by (simp add: SendMessage_def)
next
  assume "buildRequest w c MethodPost ''/api/v1/messages/batch'' (Some req) = Inr rq"
  from doRequest_decoded [OF this assms(1,2)] assms(3)
  show "SendBatch w c req = (None, Some (APIError (Code r) (Message r)))"
    by (simp add: SendBatch_def)
next
  assume "buildRequest w c MethodGet (''/api/v1/messages/'' @ taskID) None = Inr rq"
  from doRequest_decoded [OF this assms(1,2)] assms(3)
  show "QueryTask w c taskID = (None, Some (APIError (Code r) (Message r)))"
    by (simp add: QueryTask_def)
qed

lemma rejecting_env_builds:
  "\<exists>rq. buildRequest rejecting_env test_client method path reqData = Inr rq"
  by (cases reqData) (simp_all add: buildRequest_def rejecting_env_def Let_def)

theorem nonzero_code_is_business_error_witness:
  "SendMessage rejecting_env test_client test_payload
     = (None, Some (APIError 20003 ''signature invalid''))
   \<and> QueryTask rejecting_env test_client ''T1''
     = (None, Some (APIError 20003 ''signature invalid''))
   \<and> decode_envelope rejected_body
     = Inr \<lparr> Code = 20003, Message = ''signature invalid'', Data = [] \<rparr>"
proof -
  let ?r = "\<lparr> Code = 20003, Message = ''signature invalid'', Data = [] \<rparr>"
  have dec: "json_Unmarshal_Response rejecting_env rejected_body = Inr ?r"
    by (simp add: rejecting_env_def decode_envelope_def)
  have nz: "Code ?r \<noteq> 0" by simp
  obtain rq1 where b1:
    "buildRequest rejecting_env test_client MethodPost ''/api/v1/messages'' (Some test_payload)
       = Inr rq1"
    using rejecting_env_builds by blast
  have do1: "httpClient_Do rejecting_env rq1 = Inr (Inr rejected_body)"
    by (simp add: rejecting_env_def)
  obtain rq2 where b2:
    "buildRequest rejecting_env test_client MethodGet (''/api/v1/messages/'' @ ''T1'') None
       = Inr rq2"
    using rejecting_env_builds by blast
  have do2: "httpClient_Do rejecting_env rq2 = Inr (Inr rejected_body)"
    by (simp add: rejecting_env_def)
  from nonzero_code_is_business_error [OF do1 dec nz, of test_client test_payload] b1
  have a: "SendMessage rejecting_env test_client test_payload
     = (None, Some (APIError 20003 ''signature invalid''))"
    by simp
  from nonzero_code_is_business_error [OF do2 dec nz, of test_client _ "''T1''"] b2
  have b: "QueryTask rejecting_env test_client ''T1''
     = (None, Some (APIError 20003 ''signature invalid''))"
    by simp
  have c: "decode_envelope rejected_body = Inr ?r"
    by (simp add: decode_envelope_def)
  from a b c show ?thesis by (intro conjI)
qed

text \<open>
  C5.  \<open>doRequest\<close> is called in two ways only: by \<open>SendMessage\<close> and \<open>SendBatch\<close> with the
  method POST and a payload, and by \<open>QueryTask\<close> with the method GET and no payload.  In
  the request it builds on each of these calls the Content-Type header is set exactly
  when the request carries a body: a POST request has both, a GET request has neither.
  The serialisation of a payload is taken to be non-empty, as the output of a successful
  \<open>json.Marshal\<close> always is.
\<close>

theorem content_type_iff_body:
  "(buildRequest w c MethodPost path (Some req) = Inr rq
        \<and> json_Marshal_reqData w req \<noteq> Inr []
      \<longrightarrow> (has_content_type rq \<longleftrightarrow> has_body rq) \<and> has_content_type rq \<and> has_body rq)
   \<and> (buildRequest w c MethodGet path None = Inr rq
      \<longrightarrow> (has_content_type rq \<longleftrightarrow> has_body rq)
          \<and> \<not> has_content_type rq \<and> \<not> has_body rq)"
proof (intro conjI impI)
  assume "buildRequest w c MethodPost path (Some req) = Inr rq
            \<and> json_Marshal_reqData w req \<noteq> Inr []"
  then have b: "buildRequest w c MethodPost path (Some req) = Inr rq"
    and ne: "json_Marshal_reqData w req \<noteq> Inr []" by simp_all
  show ct: "has_content_type rq" using has_content_type_iff [OF b] by simp
  from b obtain bodyBytes where "json_Marshal_reqData w req = Inr bodyBytes"
    by (auto simp: buildRequest_def Let_def split: sum.splits)
  with ne show bd: "has_body rq" using buildRequest_body [OF b] by auto
  from ct bd show "has_content_type rq \<longleftrightarrow> has_body rq" by simp
next
  assume b: "buildRequest w c MethodGet path None = Inr rq"
  show ct: "\<not> has_content_type rq"
    using has_content_type_iff [OF b] by (simp add: MethodGet_def MethodPost_def)
  show bd: "\<not> has_body rq" using buildRequest_body [OF b] by simp
  from ct bd show "has_content_type rq \<longleftrightarrow> has_body rq" by simp
qed

theorem content_type_iff_body_witness:
  "(case buildRequest accepting_env test_client MethodPost ''/api/v1/messages''
           (Some test_payload) of
      Inl err \<Rightarrow> False
    | Inr rq \<Rightarrow> has_content_type rq \<and> has_body rq
                \<and> Body rq = Some (json_Marshal (VMap test_payload)))
   \<and> (case buildRequest accepting_env test_client MethodGet ''/api/v1/messages/T1'' None of
      Inl err \<Rightarrow> False
    | Inr rq \<Rightarrow> \<not> has_content_type rq \<and> \<not> has_body rq)"
proof -
  let ?b1 = "buildRequest accepting_env test_client MethodPost ''/api/v1/messages''
               (Some test_payload)"
  let ?b2 = "buildRequest accepting_env test_client MethodGet ''/api/v1/messages/T1'' None"
  have m: "json_Marshal_reqData accepting_env test_payload
             = Inr (json_Marshal (VMap test_payload))"
    by (simp add: accepting_env_def rejecting_env_def)
  obtain rq1 where b1: "?b1 = Inr rq1"
    by (simp add: buildRequest_def accepting_env_def rejecting_env_def Let_def)
  obtain rq2 where b2: "?b2 = Inr rq2"
    by (simp add: buildRequest_def accepting_env_def rejecting_env_def Let_def)
  have ne: "json_Marshal_reqData accepting_env test_payload \<noteq> Inr []"
    unfolding m using json_Marshal_VMap_nonempty by simp
  have body1: "Body rq1 = Some (json_Marshal (VMap test_payload))"
    using b1 json_Marshal_VMap_nonempty [of test_payload]
    by (auto simp: buildRequest_def accepting_env_def rejecting_env_def Let_def)
  from content_type_iff_body [of accepting_env test_client "''/api/v1/messages''"
      test_payload rq1] b1 ne
  have p1: "has_content_type rq1 \<and> has_body rq1" by blast
  from content_type_iff_body [of accepting_env test_client "''/api/v1/messages/T1''"
      _ rq2] b2
  have p2: "\<not> has_content_type rq2 \<and> \<not> has_body rq2" by blast
  from p1 p2 body1 show ?thesis by (simp add: b1 b2)
qed

lemma IsAPIError_iff: "IsAPIError err \<longleftrightarrow> (\<exists>code msg. err = Some (APIError code msg))"
  by (cases err rule: IsAPIError.cases) simp_all

lemma buildRequest_error:
  "buildRequest w c method path reqData = Inl err \<Longrightarrow>
   \<exists>tag e. err = wrapError tag e \<and> tag \<in> set (take 3 doRequest_tags)"
  by (auto simp: buildRequest_def doRequest_tags_def Let_def
           split: option.splits sum.splits prod.splits)

lemma doRequest_cases:
  "(\<exists>tag e. doRequest w c method path reqData = (None, Some (wrapError tag e))
             \<and> tag \<in> set doRequest_tags)
   \<or> (\<exists>r. Code r \<noteq> 0
          \<and> doRequest w c method path reqData
              = (Some r, Some (NewAPIError (Code r) (Message r))))
   \<or> (\<exists>r. Code r = 0 \<and> doRequest w c method path reqData = (Some r, None))"
proof (cases "buildRequest w c method path reqData")
  case (Inl err)
  from buildRequest_error [OF Inl] obtain tag e
    where "err = wrapError tag e" and "tag \<in> set (take 3 doRequest_tags)" by blast
  then have "doRequest w c method path reqData = (None, Some (wrapError tag e))"
    and "tag \<in> set doRequest_tags"
    using Inl by (auto simp: doRequest_def dest: in_set_takeD)
  then show ?thesis by blast
next
  case (Inr rq)
  then show ?thesis
    by (auto simp: doRequest_def doRequest_tags_def split: sum.splits)
qed

lemma public_tail_IsAPIError:
  "IsAPIError (snd (case r of
       (resp, Some err) \<Rightarrow> (None, Some err)
     | (Some resp, None) \<Rightarrow>
         (case dec (Data resp) of
            Inl err \<Rightarrow> (None, Some (wrapError ''unmarshal response data'' err))
          | Inr data \<Rightarrow> (Some data, None))
     | (None, None) \<Rightarrow> (None, Some (libError ''nil pointer dereference''))))
   = IsAPIError (snd r)"
  by (cases r) (auto split: option.splits sum.splits)

text \<open>
  C8.  \<open>IsAPIError\<close> holds of an error exactly when it is an \<open>APIError\<close> value.  Among
  the results of \<open>doRequest\<close> these are exactly the errors built from a decoded envelope
  with a nonzero code; whenever \<open>doRequest\<close> returns without an envelope its error is one
  of the six wrapped serialisation, request-construction, transport and decode errors,
  and \<open>IsAPIError\<close> rejects it.  The public operations classify as \<open>doRequest\<close> does.
\<close>

theorem business_error_discriminable:
  "(IsAPIError err \<longleftrightarrow> (\<exists>code msg. err = Some (APIError code msg)))
   \<and> (IsAPIError (snd (doRequest w c method path reqData)) \<longleftrightarrow>
        (\<exists>r. Code r \<noteq> 0
           \<and> doRequest w c method path reqData
               = (Some r, Some (NewAPIError (Code r) (Message r)))))
   \<and> (fst (doRequest w c method path reqData) = None \<longrightarrow>
        \<not> IsAPIError (snd (doRequest w c method path reqData))
        \<and> (\<exists>tag e. snd (doRequest w c method path reqData) = Some (wrapError tag e)
                   \<and> tag \<in> set doRequest_tags))
   \<and> IsAPIError (snd (SendMessage w c req))
       = IsAPIError (snd (doRequest w c MethodPost ''/api/v1/messages'' (Some req)))
   \<and> IsAPIError (snd (SendBatch w c req))
       = IsAPIError (snd (doRequest w c MethodPost ''/api/v1/messages/batch'' (Some req)))
   \<and> IsAPIError (snd (QueryTask w c taskID))
       = IsAPIError (snd (doRequest w c MethodGet (''/api/v1/messages/'' @ taskID) None))"
proof (intro conjI impI)
  show "IsAPIError err \<longleftrightarrow> (\<exists>code msg. err = Some (APIError code msg))"
    by (rule IsAPIError_iff)
next
  show "IsAPIError (snd (doRequest w c method path reqData)) \<longleftrightarrow>
        (\<exists>r. Code r \<noteq> 0
           \<and> doRequest w c method path reqData
               = (Some r, Some (NewAPIError (Code r) (Message r))))"
    using doRequest_cases [of w c "method" "path" reqData]
    by (auto simp: NewAPIError_def)
next
  assume none: "fst (doRequest w c method path reqData) = None"
  with doRequest_cases [of w c "method" "path" reqData]
  obtain tag e where "doRequest w c method path reqData = (None, Some (wrapError tag e))"
    and "tag \<in> set doRequest_tags"
    by auto
  then show "\<not> IsAPIError (snd (doRequest w c method path reqData))"
    and "\<exists>tag e. snd (doRequest w c method path reqData) = Some (wrapError tag e)
                   \<and> tag \<in> set doRequest_tags"
    by simp_all
next
  show "IsAPIError (snd (SendMessage w c req))
       = IsAPIError (snd (doRequest w c MethodPost ''/api/v1/messages'' (Some req)))"
    unfolding SendMessage_def by (rule public_tail_IsAPIError)
next
  show "IsAPIError (snd (SendBatch w c req))
       = IsAPIError (snd (doRequest w c MethodPost ''/api/v1/messages/batch'' (Some req)))"
    unfolding SendBatch_def by (rule public_tail_IsAPIError)
next
  show "IsAPIError (snd (QueryTask w c taskID))
       = IsAPIError (snd (doRequest w c MethodGet (''/api/v1/messages/'' @ taskID) None))"
    unfolding QueryTask_def Let_def by (rule public_tail_IsAPIError)
qed

lemma timeout_env_doRequest:
  "doRequest timeout_env test_client MethodPost ''/api/v1/messages'' (Some test_payload)
     = (None, Some (wrapError ''do request'' (libError ''context deadline exceeded'')))"
  by (simp add: doRequest_def buildRequest_def timeout_env_def rejecting_env_def Let_def)

lemma rejecting_env_doRequest:
  "doRequest rejecting_env test_client MethodPost ''/api/v1/messages'' (Some test_payload)
     = (Some \<lparr> Code = 20003, Message = ''signature invalid'', Data = [] \<rparr>,
        Some (APIError 20003 ''signature invalid''))"
  by (simp add: doRequest_def buildRequest_def rejecting_env_def Let_def
      decode_envelope_def NewAPIError_def)

theorem business_error_discriminable_witness:
  "fst (doRequest timeout_env test_client MethodPost ''/api/v1/messages'' (Some test_payload))
     = None
   \<and> \<not> IsAPIError
        (snd (doRequest timeout_env test_client MethodPost ''/api/v1/messages''
                (Some test_payload)))
   \<and> \<not> IsAPIError (snd (SendMessage timeout_env test_client test_payload))
   \<and> IsAPIError
        (snd (doRequest rejecting_env test_client MethodPost ''/api/v1/messages''
                (Some test_payload)))
   \<and> IsAPIError (snd (SendMessage rejecting_env test_client test_payload))"
proof -
  let ?t = "doRequest timeout_env test_client MethodPost ''/api/v1/messages'' (Some test_payload)"
  let ?r = "doRequest rejecting_env test_client MethodPost ''/api/v1/messages''
              (Some test_payload)"
  have none: "fst ?t = None" by (simp add: timeout_env_doRequest)
  note t = business_error_discriminable
    [of None timeout_env test_client MethodPost "''/api/v1/messages''" "Some test_payload"
        test_payload]
  note r = business_error_discriminable
    [of None rejecting_env test_client MethodPost "''/api/v1/messages''" "Some test_payload"
        test_payload]
  from t none have a: "\<not> IsAPIError (snd ?t)" by blast
  from t a have b: "\<not> IsAPIError (snd (SendMessage timeout_env test_client test_payload))"
    by blast
  have c: "IsAPIError (snd ?r)" by (simp add: rejecting_env_doRequest)
  from r c have d: "IsAPIError (snd (SendMessage rejecting_env test_client test_payload))"
    by blast
  from none a b c d show ?thesis by (intro conjI)
qed

end
